theory Spec2Isabelle
  imports Main
begin

section \<open>JavaScript values and plain objects\<close>

text \<open>
  The values that flow through the controller. A plain object is the list of its own
  enumerable properties in enumeration order (the order of \<^verbatim>\<open>for ... in\<close>,
  \<^verbatim>\<open>Object.entries\<close> and object spread). \<open>JRaw\<close> is the raw SQL fragment
  built by \<^verbatim>\<open>sql.literal\<close>; \<open>JPromise v\<close> is a promise that fulfils with \<open>v\<close>
  (a rejected promise is modelled where it is produced, as the error of the callback).
\<close>

datatype jsval =
    JUndefined
  | JNull
  | JBool bool
  | JNum int
  | JStr string
  | JRaw string
  | JArr "jsval list"
  | JObj "(string \<times> jsval) list"
  | JPromise jsval

type_synonym obj = "(string \<times> jsval) list"

text \<open>\<^verbatim>\<open>obj[key]\<close>: the property, \<^verbatim>\<open>undefined\<close> when the object has none.\<close>

definition js_get :: "obj \<Rightarrow> string \<Rightarrow> jsval" where
  "js_get ob key = (case map_of ob key of None \<Rightarrow> JUndefined | Some v \<Rightarrow> v)"

text \<open>\<^verbatim>\<open>obj[key] = v\<close>: an existing property keeps its place, a new one goes last.\<close>

fun js_set :: "obj \<Rightarrow> string \<Rightarrow> jsval \<Rightarrow> obj" where
  "js_set [] key v = [(key, v)]"
| "js_set ((k, x) # ob) key v = (if k = key then (k, v) # ob else (k, x) # js_set ob key v)"

text \<open>\<^verbatim>\<open>delete obj[key]\<close>.\<close>

definition js_delete :: "obj \<Rightarrow> string \<Rightarrow> obj" where
  "js_delete ob key = filter (\<lambda>p. fst p \<noteq> key) ob"

text \<open>The property names of a plain object, and \<^verbatim>\<open>key in obj\<close>.\<close>

definition js_keys :: "obj \<Rightarrow> string set" where
  "js_keys ob = fst ` set ob"

definition js_has :: "obj \<Rightarrow> string \<Rightarrow> bool" where
  "js_has ob key = (key \<in> js_keys ob)"

fun typeof :: "jsval \<Rightarrow> string" where
  "typeof JUndefined = ''undefined''"
| "typeof JNull = ''object''"
| "typeof (JBool b) = ''boolean''"
| "typeof (JNum n) = ''number''"
| "typeof (JStr s) = ''string''"
| "typeof (JRaw s) = ''object''"
| "typeof (JArr xs) = ''object''"
| "typeof (JObj ob) = ''object''"
| "typeof (JPromise v) = ''object''"

text \<open>\<^verbatim>\<open>if (v)\<close>: the truthiness of a value.\<close>

fun truthy :: "jsval \<Rightarrow> bool" where
  "truthy JUndefined = False"
| "truthy JNull = False"
| "truthy (JBool b) = b"
| "truthy (JNum n) = (n \<noteq> 0)"
| "truthy (JStr s) = (s \<noteq> [])"
| "truthy (JRaw s) = True"
| "truthy (JArr xs) = True"
| "truthy (JObj ob) = True"
| "truthy (JPromise v) = True"

text \<open>\<^verbatim>\<open>await v\<close> on a value that fulfils: a promise gives what it fulfils with
  (promises are flattened), anything else is returned as it is.\<close>

fun await :: "jsval \<Rightarrow> jsval" where
  "await (JPromise v) = await v"
| "await JUndefined = JUndefined"
| "await JNull = JNull"
| "await (JBool b) = JBool b"
| "await (JNum n) = JNum n"
| "await (JStr s) = JStr s"
| "await (JRaw s) = JRaw s"
| "await (JArr xs) = JArr xs"
| "await (JObj ob) = JObj ob"

section \<open>Errors\<close>

text \<open>
  \<^verbatim>\<open>crud_error.ts\<close>: the error class of this layer and its three factory methods.
  \<open>details\<close> is \<^verbatim>\<open>undefined\<close> when the constructor gets no fourth argument.
\<close>

record CrudError =
  message :: string
  type :: string
  statusCode :: nat
  details :: jsval
  isCrudError :: bool

definition newCrudError :: "string \<Rightarrow> string \<Rightarrow> nat \<Rightarrow> jsval \<Rightarrow> CrudError" where
  "newCrudError msg ty code det =
     \<lparr>message = msg, type = ty, statusCode = code, details = det, isCrudError = True\<rparr>"

definition unauthorized :: CrudError where
  "unauthorized = newCrudError ''unauthorized'' ''unauthorized'' 401 JUndefined"

definition forbidden :: CrudError where
  "forbidden = newCrudError ''forbidden'' ''forbidden'' 403 JUndefined"

definition notFound :: CrudError where
  "notFound = newCrudError ''not found'' ''not_found'' 404 JUndefined"

text \<open>
  Everything an action can throw. \<open>Crud\<close> is an error constructed by this layer;
  \<open>Zod\<close> is the error thrown by the validation library's \<^verbatim>\<open>parse\<close>, with its issues;
  \<open>TypeError\<close> is raised by the JavaScript runtime; \<open>Thrown\<close> is whatever a
  caller-supplied callback (custom attribute function, \<^verbatim>\<open>where\<close> function, query hook,
  render function, data function) threw or rejected with, passed on untouched.
\<close>

datatype zod_issue = NotAnObject | InvalidField string

datatype type_error = ReadPropertyOfUndefined | InOperatorOnNull

datatype 'e error =
    is_Crud: Crud CrudError
  | Zod "zod_issue list"
  | TypeError type_error
  | Thrown 'e

section \<open>The validation library: object schemas\<close>

text \<open>
  The schema library is an external collaborator; the controller calls
  \<^verbatim>\<open>models[model].pick(schemaKeys)\<close> and \<^verbatim>\<open>schema.parse(payload)\<close>. A field schema
  maps the value found in the payload (\<^verbatim>\<open>undefined\<close> when the key is missing) to its
  parsed output, or rejects it. An object schema is the list of its fields; it is taken
  in the library's default mode, as the repository's example declares its models
  (\<^verbatim>\<open>z.object({...})\<close>): keys of the input that the schema does not name are dropped.
\<close>

type_synonym zfield = "jsval \<Rightarrow> jsval option"
type_synonym zshape = "(string \<times> zfield) list"

text \<open>\<^verbatim>\<open>schema.pick(mask)\<close>: the fields of the mask, in its order, that the mask sets to a
  truthy value and that the schema has.\<close>

fun zpick :: "zshape \<Rightarrow> obj \<Rightarrow> zshape" where
  "zpick shape [] = []"
| "zpick shape ((key, v) # ks) =
     (case map_of shape key of
        Some f \<Rightarrow> (if truthy v then (key, f) # zpick shape ks else zpick shape ks)
      | None \<Rightarrow> zpick shape ks)"

text \<open>The fields of a shape run over the input object: all issues are collected; a field
  whose output is \<^verbatim>\<open>undefined\<close> is set only when the input has the key.\<close>

fun parseFields :: "zshape \<Rightarrow> obj \<Rightarrow> zod_issue list \<times> obj" where
  "parseFields [] input = ([], [])"
| "parseFields ((key, f) # shape) input =
     (case f (js_get input key) of
        None \<Rightarrow> (InvalidField key # fst (parseFields shape input), snd (parseFields shape input))
      | Some v \<Rightarrow>
          (fst (parseFields shape input),
           if v \<noteq> JUndefined \<or> js_has input key
           then (key, v) # snd (parseFields shape input)
           else snd (parseFields shape input)))"

text \<open>\<^verbatim>\<open>schema.parse(input)\<close>: anything but a plain object is rejected at the root.\<close>

fun zparse :: "zshape \<Rightarrow> jsval \<Rightarrow> 'e error + obj" where
  "zparse shape (JObj input) =
     (if fst (parseFields shape input) = [] then Inr (snd (parseFields shape input))
      else Inl (Zod (fst (parseFields shape input))))"
| "zparse shape JUndefined = Inl (Zod [NotAnObject])"
| "zparse shape JNull = Inl (Zod [NotAnObject])"
| "zparse shape (JBool b) = Inl (Zod [NotAnObject])"
| "zparse shape (JNum n) = Inl (Zod [NotAnObject])"
| "zparse shape (JStr s) = Inl (Zod [NotAnObject])"
| "zparse shape (JRaw s) = Inl (Zod [NotAnObject])"
| "zparse shape (JArr xs) = Inl (Zod [NotAnObject])"
| "zparse shape (JPromise v) = Inl (Zod [NotAnObject])"

section \<open>The environment: adapter, store and system services\<close>

text \<open>
  A query builder as far as this layer drives it: the table and the \<^verbatim>\<open>where\<close> clauses
  in the order they were added. \<open>custom\<close> holds whatever else a query hook adds.
\<close>

type_synonym where_triple = "string \<times> string \<times> jsval"

record query =
  table :: string
  wheres :: "where_triple list"
  custom :: "string list"

text \<open>\<^verbatim>\<open>query.where(lhs, op, rhs)\<close>.\<close>

definition qwhere :: "query \<Rightarrow> string \<Rightarrow> string \<Rightarrow> jsval \<Rightarrow> query" where
  "qwhere q lhs op rhs = q\<lparr>wheres := wheres q @ [(lhs, op, rhs)]\<rparr>"

datatype onConflictClause = DoNothing | DoUpdateSet obj

text \<open>
  The query engine (external): what executing each kind of statement gives.
  A select gives the rows; an insert and an update with \<^verbatim>\<open>returningAll\<close> give the
  returned rows and the new store; a delete gives the number of deleted rows.
\<close>

record 'db engine =
  execSelect :: "'db \<Rightarrow> query \<Rightarrow> obj list"
  execInsert :: "'db \<Rightarrow> string \<Rightarrow> obj \<Rightarrow> onConflictClause option \<Rightarrow> obj list \<times> 'db"
  execUpdate :: "'db \<Rightarrow> query \<Rightarrow> obj \<Rightarrow> obj list \<times> 'db"
  execDelete :: "'db \<Rightarrow> query \<Rightarrow> nat \<times> 'db"

text \<open>
  The state outside the request: the store, and the values that
  \<^verbatim>\<open>crypto.randomUUID()\<close> and \<^verbatim>\<open>new Date().toISOString()\<close> give at each successive
  call (\<open>tick\<close> counts the calls made so far).
\<close>

record 'db world =
  database :: 'db
  uuids :: "nat \<Rightarrow> string"
  clock :: "nat \<Rightarrow> string"
  tick :: nat

text \<open>\<^verbatim>\<open>ContextAdapter\<close>. \<open>get_ctx\<close>, \<open>set_ctx\<close> and \<open>respond\<close> are its
  \<^verbatim>\<open>get\<close>, \<^verbatim>\<open>set\<close> and \<^verbatim>\<open>response\<close>.\<close>

record ('c, 'db, 'r) ContextAdapter =
  useDatabase :: "'c \<Rightarrow> 'db engine"
  get_ctx :: "'c \<Rightarrow> string \<Rightarrow> jsval"
  set_ctx :: "'c \<Rightarrow> string \<Rightarrow> jsval \<Rightarrow> 'c"
  getRequestParams :: "'c \<Rightarrow> obj"
  getRequestBody :: "'c \<Rightarrow> jsval"
  respond :: "'c \<Rightarrow> jsval \<Rightarrow> nat \<Rightarrow> 'r"

section \<open>Attribute resolution\<close>

text \<open>The attribute sources of \<^verbatim>\<open>AttributesPicker\<close>; \<open>Fn\<close> is a custom function
  of the request context, which may throw.\<close>

datatype ('c, 'e) source =
    Null | Default | Uuid | Get | Arg | Payload | Param | InsertedAt | UpdatedAt
  | Fn "'c \<Rightarrow> 'e + jsval"

type_synonym ('c, 'e) AttributesPicker = "(string \<times> ('c, 'e) source) list"

text \<open>The first loop of \<^verbatim>\<open>createAttributesPickerFunction\<close>: the mask of the
  \<^verbatim>\<open>"payload"\<close> keys.\<close>

fun schemaKeys :: "('c, 'e) AttributesPicker \<Rightarrow> obj \<Rightarrow> obj" where
  "schemaKeys [] acc = acc"
| "schemaKeys ((key, Payload) # picker) acc = schemaKeys picker (js_set acc key (JBool True))"
| "schemaKeys ((key, src) # picker) acc = schemaKeys picker acc"

text \<open>One pass of the \<^verbatim>\<open>switch\<close>: the attributes after the assignment of the case taken.
  The extra-arguments bag is \<open>None\<close> when the action is called without it.\<close>

fun resolveSource ::
  "('c, 'db, 'r) ContextAdapter \<Rightarrow> 'c \<Rightarrow> obj option \<Rightarrow> string \<Rightarrow> ('c, 'e) source \<Rightarrow>
   obj \<Rightarrow> 'db world \<Rightarrow> 'e error + (obj \<times> 'db world)" where
  "resolveSource adapter c args key Get attributes w =
     Inr (js_set attributes key (get_ctx adapter c key), w)"
| "resolveSource adapter c args key Arg attributes w =
     (case args of
        None \<Rightarrow> Inl (TypeError ReadPropertyOfUndefined)
      | Some bag \<Rightarrow> Inr (js_set attributes key (js_get bag key), w))"
| "resolveSource adapter c args key Param attributes w =
     Inr (js_set attributes key (js_get (getRequestParams adapter c) key), w)"
| "resolveSource adapter c args key Uuid attributes w =
     Inr (js_set attributes key (JStr (uuids w (tick w))), w\<lparr>tick := Suc (tick w)\<rparr>)"
| "resolveSource adapter c args key InsertedAt attributes w =
     Inr (js_set attributes key (JStr (clock w (tick w))), w\<lparr>tick := Suc (tick w)\<rparr>)"
| "resolveSource adapter c args key UpdatedAt attributes w =
     Inr (js_set attributes key (JStr (clock w (tick w))), w\<lparr>tick := Suc (tick w)\<rparr>)"
| "resolveSource adapter c args key Null attributes w =
     Inr (js_set attributes key JNull, w)"
| "resolveSource adapter c args key Default attributes w =
     Inr (js_set attributes key (JRaw ''DEFAULT''), w)"
| "resolveSource adapter c args key Payload attributes w = Inr (attributes, w)"
| "resolveSource adapter c args key (Fn f) attributes w =
     (case f c of
        Inl e \<Rightarrow> Inl (Thrown e)
      | Inr fnValue \<Rightarrow>
          if typeof fnValue = ''object'' then
            (case fnValue of
               JNull \<Rightarrow> Inl (TypeError InOperatorOnNull)
             | JPromise v \<Rightarrow> Inr (js_set attributes key (await fnValue), w)
             | JObj ob \<Rightarrow>
                 if js_has ob ''then'' then Inr (js_set attributes key (await fnValue), w)
                 else Inr (js_set attributes key fnValue, w)
             | _ \<Rightarrow> Inr (js_set attributes key fnValue, w))
          else Inr (js_set attributes key fnValue, w))"

text \<open>Lines 193 to 196: a boolean under the key becomes \<^verbatim>\<open>"1"\<close> or \<^verbatim>\<open>"0"\<close>.\<close>

definition coerceBoolean :: "obj \<Rightarrow> string \<Rightarrow> obj" where
  "coerceBoolean attributes key =
     (case js_get attributes key of
        JBool b \<Rightarrow> js_set attributes key (JStr (if b then ''1'' else ''0''))
      | _ \<Rightarrow> attributes)"

text \<open>The second loop, over the keys of the picker in order; it stops at the first
  error.\<close>

fun resolveAll ::
  "('c, 'db, 'r) ContextAdapter \<Rightarrow> 'c \<Rightarrow> obj option \<Rightarrow> ('c, 'e) AttributesPicker \<Rightarrow>
   obj \<Rightarrow> 'db world \<Rightarrow> 'e error + (obj \<times> 'db world)" where
  "resolveAll adapter c args [] attributes w = Inr (attributes, w)"
| "resolveAll adapter c args ((key, pickerType) # picker) attributes w =
     (case resolveSource adapter c args key pickerType attributes w of
        Inl e \<Rightarrow> Inl e
      | Inr (attributes', w') \<Rightarrow>
          resolveAll adapter c args picker (coerceBoolean attributes' key) w')"

definition createAttributesPickerFunction ::
  "(string \<Rightarrow> zshape) \<Rightarrow> string \<Rightarrow> ('c, 'db, 'r) ContextAdapter \<Rightarrow> ('c, 'e) AttributesPicker \<Rightarrow>
   'c \<Rightarrow> jsval \<Rightarrow> obj option \<Rightarrow> 'db world \<Rightarrow> 'e error + (obj \<times> 'db world)" where
  "createAttributesPickerFunction models model adapter picker c payload args w =
     (case zparse (zpick (models model) (schemaKeys picker [])) payload of
        Inl e \<Rightarrow> Inl e
      | Inr attributes \<Rightarrow> resolveAll adapter c args picker attributes w)"

section \<open>Response shaping helpers\<close>

text \<open>\<^verbatim>\<open>pick(obj, ...props)\<close>: a \<^verbatim>\<open>reduce\<close> from the empty object that assigns
  \<^verbatim>\<open>obj[prop]\<close> for each property in turn (so a property the object lacks is set to
  \<^verbatim>\<open>undefined\<close>).\<close>

definition pick :: "obj \<Rightarrow> string list \<Rightarrow> obj" where
  "pick ob props = foldl (\<lambda>result prop. js_set result prop (js_get ob prop)) [] props"

text \<open>\<^verbatim>\<open>omit(obj, ...props)\<close>: a copy of the object with each property deleted in turn.\<close>

definition omit :: "obj \<Rightarrow> string list \<Rightarrow> obj" where
  "omit ob props = foldl js_delete ob props"

section \<open>Options\<close>

datatype ('c, 'e) WhereOptions =
    WhereList "where_triple list"
  | WhereFn "'c \<Rightarrow> 'e + where_triple list"

text \<open>\<^verbatim>\<open>CrudControllerLoadOptions\<close> (also the index and show options). The fields are
  its \<^verbatim>\<open>scopes\<close>, \<^verbatim>\<open>where\<close>, \<^verbatim>\<open>query\<close> and \<^verbatim>\<open>as\<close>; \<open>None\<close> is an absent
  field.\<close>

record ('c, 'e) LoadOptions =
  scopes :: "string list option"
  where_opt :: "('c, 'e) WhereOptions option"
  query_opt :: "('c \<Rightarrow> query \<Rightarrow> 'e + query) option"
  as_opt :: "string option"

record ('c, 'e) CreateOptions =
  create_attributes :: "('c, 'e) AttributesPicker"
  onConflict :: "onConflictClause option"

record ('c, 'e) UpdateOptions =
  update_where :: "('c, 'e) WhereOptions option"
  update_attributes :: "('c, 'e) AttributesPicker"

record ('c, 'e) DestroyOptions =
  destroy_where :: "('c, 'e) WhereOptions option"
  destroy_as :: "string option"

record 'e ResponseOptions =
  omit_opt :: "string list option"
  pick_opt :: "string list option"
  render :: "(obj \<Rightarrow> 'e + obj) option"
  statusCode_opt :: "nat option"

text \<open>The default \<^verbatim>\<open>loadOptions = {}\<close>.\<close>

definition noLoadOptions :: "('c, 'e) LoadOptions" where
  "noLoadOptions = \<lparr>scopes = None, where_opt = None, query_opt = None, as_opt = None\<rparr>"

text \<open>Destroy options read as load options, as \<^verbatim>\<open>destroy\<close> passes them to
  \<^verbatim>\<open>singularize\<close> and \<^verbatim>\<open>load\<close>: their type has no \<^verbatim>\<open>scopes\<close> and no
  \<^verbatim>\<open>query\<close>.\<close>

definition destroyAsLoad :: "('c, 'e) DestroyOptions \<Rightarrow> ('c, 'e) LoadOptions" where
  "destroyAsLoad destroyOptions =
     \<lparr>scopes = None, where_opt = destroy_where destroyOptions, query_opt = None,
      as_opt = destroy_as destroyOptions\<rparr>"

section \<open>The controller\<close>

text \<open>\<^verbatim>\<open>singularize\<close>: \<^verbatim>\<open>if (loadOptions.as)\<close> tests the truthiness of the option, so
  an empty string counts as absent; \<^verbatim>\<open>slice(0, -1)\<close> drops the last character
  (model names are taken to be ASCII, one \<open>char\<close> per character).\<close>

definition singularize :: "string \<Rightarrow> ('c, 'e) LoadOptions \<Rightarrow> string" where
  "singularize model loadOptions =
     (case as_opt loadOptions of
        Some a \<Rightarrow> if a \<noteq> [] then a else butlast model
      | None \<Rightarrow> butlast model)"

definition getScopes ::
  "('c, 'db, 'r) ContextAdapter \<Rightarrow> 'c \<Rightarrow> ('c, 'e) LoadOptions \<Rightarrow> (string \<times> jsval) list" where
  "getScopes adapter c loadOptions =
     (case scopes loadOptions of
        Some names \<Rightarrow>
          filter (\<lambda>(scope, val). scope \<in> set names) (getRequestParams adapter c)
      | None \<Rightarrow> getRequestParams adapter c)"

text \<open>The loop \<^verbatim>\<open>for (const [lhs, op, rhs] of where) query = query.where(lhs, op, rhs)\<close>.\<close>

fun whereAll :: "query \<Rightarrow> where_triple list \<Rightarrow> query" where
  "whereAll q [] = q"
| "whereAll q ((lhs, op, rhs) # ws) = whereAll (qwhere q lhs op rhs) ws"

definition applyWhere :: "'c \<Rightarrow> ('c, 'e) WhereOptions \<Rightarrow> query \<Rightarrow> 'e error + query" where
  "applyWhere c wh q =
     (case wh of
        WhereFn f \<Rightarrow> (case f c of Inl e \<Rightarrow> Inl (Thrown e) | Inr ws \<Rightarrow> Inr (whereAll q ws))
      | WhereList ws \<Rightarrow> Inr (whereAll q ws))"

text \<open>The loop \<^verbatim>\<open>for (const [paramKey, paramValue] of this.getScopes(...))
  query = query.where(paramKey, "=", paramValue)\<close>, which index, load, update and destroy
  each run on their query.\<close>

fun whereScopes :: "query \<Rightarrow> (string \<times> jsval) list \<Rightarrow> query" where
  "whereScopes q [] = q"
| "whereScopes q ((paramKey, paramValue) # ps) = whereScopes (qwhere q paramKey ''='' paramValue) ps"

text \<open>\<^verbatim>\<open>if (options.where) query = this.applyWhere(c, options.where, query)\<close>.\<close>

definition whereIfSet :: "'c \<Rightarrow> ('c, 'e) WhereOptions option \<Rightarrow> query \<Rightarrow> 'e error + query" where
  "whereIfSet c wh q = (case wh of None \<Rightarrow> Inr q | Some w \<Rightarrow> applyWhere c w q)"

text \<open>A fresh builder on a table: \<^verbatim>\<open>selectFrom(model).selectAll()\<close>,
  \<^verbatim>\<open>updateTable(model)\<close>, \<^verbatim>\<open>deleteFrom(model)\<close>.\<close>

definition onTable :: "string \<Rightarrow> query" where
  "onTable model = \<lparr>table = model, wheres = [], custom = []\<rparr>"

text \<open>The value of \<^verbatim>\<open>index\<close>: \<^verbatim>\<open>{ data, metadata: { total_count: 0 } }\<close>.\<close>

record collection =
  data :: "obj list"
  metadata :: jsval

text \<open>The query that \<^verbatim>\<open>index\<close> executes: scopes, then \<^verbatim>\<open>where\<close>, then the
  \<^verbatim>\<open>query\<close> hook.\<close>

definition indexQuery ::
  "('c, 'db, 'r) ContextAdapter \<Rightarrow> string \<Rightarrow> ('c, 'e) LoadOptions \<Rightarrow> 'c \<Rightarrow> 'e error + query" where
  "indexQuery adapter model indexOptions c =
     (case whereIfSet c (where_opt indexOptions)
             (whereScopes (onTable model) (getScopes adapter c indexOptions)) of
        Inl e \<Rightarrow> Inl e
      | Inr q \<Rightarrow>
          (case query_opt indexOptions of
             None \<Rightarrow> Inr q
           | Some hook \<Rightarrow> (case hook c q of Inl e \<Rightarrow> Inl (Thrown e) | Inr q' \<Rightarrow> Inr q')))"

definition index ::
  "('c, 'db, 'r) ContextAdapter \<Rightarrow> string \<Rightarrow> ('c, 'e) LoadOptions \<Rightarrow> 'c \<Rightarrow> 'db world \<Rightarrow>
   'e error + (collection \<times> 'db world)" where
  "index adapter model indexOptions c w =
     (case indexQuery adapter model indexOptions c of
        Inl e \<Rightarrow> Inl e
      | Inr q \<Rightarrow>
          Inr (\<lparr>data = execSelect (useDatabase adapter c) (database w) q,
                metadata = JObj [(''total_count'', JNum 0)]\<rparr>, w))"

text \<open>\<^verbatim>\<open>executeTakeFirst\<close> on returned rows: the first row, or \<^verbatim>\<open>undefined\<close>.\<close>

definition takeFirst :: "obj list \<Rightarrow> jsval" where
  "takeFirst rows = (case rows of [] \<Rightarrow> JUndefined | r # rs \<Rightarrow> JObj r)"

definition create ::
  "(string \<Rightarrow> zshape) \<Rightarrow> ('c, 'db, 'r) ContextAdapter \<Rightarrow> string \<Rightarrow> ('c, 'e) CreateOptions \<Rightarrow>
   'c \<Rightarrow> obj option \<Rightarrow> 'db world \<Rightarrow> 'e error + (jsval \<times> 'db world)" where
  "create models adapter model createOptions c args w =
     (case createAttributesPickerFunction models model adapter (create_attributes createOptions)
             c (getRequestBody adapter c) args w of
        Inl e \<Rightarrow> Inl e
      | Inr (attributes, w') \<Rightarrow>
          (case execInsert (useDatabase adapter c) (database w') model attributes
                  (onConflict createOptions) of
             (rows, db') \<Rightarrow> Inr (takeFirst rows, w'\<lparr>database := db'\<rparr>)))"

definition loadQuery ::
  "('c, 'db, 'r) ContextAdapter \<Rightarrow> string \<Rightarrow> ('c, 'e) LoadOptions \<Rightarrow> 'c \<Rightarrow> 'e error + query" where
  "loadQuery adapter model loadOptions c =
     whereIfSet c (where_opt loadOptions)
       (whereScopes (onTable model) (getScopes adapter c loadOptions))"

definition load ::
  "('c, 'db, 'r) ContextAdapter \<Rightarrow> 'c \<Rightarrow> string \<Rightarrow> ('c, 'e) LoadOptions \<Rightarrow> 'db world \<Rightarrow>
   'e error + (jsval \<times> 'db world)" where
  "load adapter c model loadOptions w =
     (case loadQuery adapter model loadOptions c of
        Inl e \<Rightarrow> Inl e
      | Inr q \<Rightarrow>
          (case execSelect (useDatabase adapter c) (database w) q of
             [] \<Rightarrow> Inl (Crud notFound)
           | r # rs \<Rightarrow> Inr (JObj r, w)))"

text \<open>\<^verbatim>\<open>loader\<close>, up to the call of \<^verbatim>\<open>next\<close>: the context with the loaded record
  stored under the singular name.\<close>

definition loader ::
  "('c, 'db, 'r) ContextAdapter \<Rightarrow> string \<Rightarrow> ('c, 'e) LoadOptions \<Rightarrow> 'c \<Rightarrow> 'db world \<Rightarrow>
   'e error + ('c \<times> 'db world)" where
  "loader adapter model loadOptions c w =
     (case load adapter c model loadOptions w of
        Inl e \<Rightarrow> Inl e
      | Inr (d, w') \<Rightarrow> Inr (set_ctx adapter c (singularize model loadOptions) d, w'))"

definition "show" ::
  "('c, 'db, 'r) ContextAdapter \<Rightarrow> string \<Rightarrow> ('c, 'e) LoadOptions \<Rightarrow> 'c \<Rightarrow> 'db world \<Rightarrow>
   'e error + (jsval \<times> 'db world)" where
  "show adapter model showOptions c w =
     (if get_ctx adapter c (singularize model showOptions) = JUndefined
      then load adapter c model showOptions w
      else Inr (get_ctx adapter c (singularize model showOptions), w))"

definition updateQuery ::
  "('c, 'db, 'r) ContextAdapter \<Rightarrow> string \<Rightarrow> ('c, 'e) UpdateOptions \<Rightarrow> 'c \<Rightarrow> 'e error + query" where
  "updateQuery adapter model updateOptions c =
     whereIfSet c (update_where updateOptions)
       (whereScopes (onTable model) (getScopes adapter c (noLoadOptions :: ('c, 'e) LoadOptions)))"

definition update ::
  "(string \<Rightarrow> zshape) \<Rightarrow> ('c, 'db, 'r) ContextAdapter \<Rightarrow> string \<Rightarrow> ('c, 'e) UpdateOptions \<Rightarrow>
   'c \<Rightarrow> obj option \<Rightarrow> 'db world \<Rightarrow> 'e error + (jsval \<times> 'db world)" where
  "update models adapter model updateOptions c args w =
     (case updateQuery adapter model updateOptions c of
        Inl e \<Rightarrow> Inl e
      | Inr q \<Rightarrow>
          (case createAttributesPickerFunction models model adapter
                  (update_attributes updateOptions) c (getRequestBody adapter c) args w of
             Inl e \<Rightarrow> Inl e
           | Inr (updatedAttributes, w') \<Rightarrow>
               (case execUpdate (useDatabase adapter c) (database w') q updatedAttributes of
                  ([], db') \<Rightarrow> Inl (Crud notFound)
                | (r # rs, db') \<Rightarrow> Inr (JObj r, w'\<lparr>database := db'\<rparr>))))"

definition destroyQuery ::
  "('c, 'db, 'r) ContextAdapter \<Rightarrow> string \<Rightarrow> ('c, 'e) DestroyOptions \<Rightarrow> 'c \<Rightarrow> 'e error + query" where
  "destroyQuery adapter model destroyOptions c =
     whereIfSet c (destroy_where destroyOptions)
       (whereScopes (onTable model) (getScopes adapter c (noLoadOptions :: ('c, 'e) LoadOptions)))"

text \<open>The delete itself, after the record has been found in the context or loaded.\<close>

definition destroyFound ::
  "('c, 'db, 'r) ContextAdapter \<Rightarrow> string \<Rightarrow> ('c, 'e) DestroyOptions \<Rightarrow> 'c \<Rightarrow> 'db world \<Rightarrow>
   'e error + (jsval \<times> 'db world)" where
  "destroyFound adapter model destroyOptions c w =
     (case destroyQuery adapter model destroyOptions c of
        Inl e \<Rightarrow> Inl e
      | Inr q \<Rightarrow>
          (case execDelete (useDatabase adapter c) (database w) q of
             (numDeletedRows, db') \<Rightarrow>
               if numDeletedRows = 0 then Inl (Crud notFound)
               else Inr (JObj [], w\<lparr>database := db'\<rparr>)))"

definition destroy ::
  "('c, 'db, 'r) ContextAdapter \<Rightarrow> string \<Rightarrow> ('c, 'e) DestroyOptions \<Rightarrow> 'c \<Rightarrow> 'db world \<Rightarrow>
   'e error + (jsval \<times> 'db world)" where
  "destroy adapter model destroyOptions c w =
     (if get_ctx adapter c (singularize model (destroyAsLoad destroyOptions)) = JUndefined
      then (case load adapter c model (destroyAsLoad destroyOptions) w of
              Inl e \<Rightarrow> Inl e
            | Inr (record, w') \<Rightarrow> destroyFound adapter model destroyOptions c w')
      else destroyFound adapter model destroyOptions c w)"

text \<open>The body of the \<^verbatim>\<open>map\<close> callback in \<^verbatim>\<open>collectionResponse\<close>: omit, then pick,
  then render.\<close>

definition shapeRow :: "'e ResponseOptions \<Rightarrow> obj \<Rightarrow> 'e error + obj" where
  "shapeRow options row =
     (let r1 = (case omit_opt options of None \<Rightarrow> row | Some props \<Rightarrow> omit row props);
          r2 = (case pick_opt options of None \<Rightarrow> r1 | Some props \<Rightarrow> pick r1 props)
      in case render options of
           None \<Rightarrow> Inr r2
         | Some f \<Rightarrow> (case f r2 of Inl e \<Rightarrow> Inl (Thrown e) | Inr r3 \<Rightarrow> Inr r3))"

text \<open>\<^verbatim>\<open>Promise.all(resultData.map(...))\<close>: the shaped rows in the order of the input.
  When several callbacks reject, the error kept here is that of the earliest row.\<close>

fun shapeRows :: "'e ResponseOptions \<Rightarrow> obj list \<Rightarrow> 'e error + obj list" where
  "shapeRows options [] = Inr []"
| "shapeRows options (row # rows) =
     (case shapeRow options row of
        Inl e \<Rightarrow> Inl e
      | Inr r \<Rightarrow> (case shapeRows options rows of Inl e \<Rightarrow> Inl e | Inr rs \<Rightarrow> Inr (r # rs)))"

definition collectionResponse ::
  "('c, 'db, 'r) ContextAdapter \<Rightarrow> ('c \<Rightarrow> 'db world \<Rightarrow> 'e error + (collection \<times> 'db world)) \<Rightarrow>
   'e ResponseOptions \<Rightarrow> 'c \<Rightarrow> 'db world \<Rightarrow> 'e error + ('r \<times> 'db world)" where
  "collectionResponse adapter dataFn options c w =
     (case dataFn c w of
        Inl e \<Rightarrow> Inl e
      | Inr (result, w') \<Rightarrow>
          (case shapeRows options (data result) of
             Inl e \<Rightarrow> Inl e
           | Inr shaped \<Rightarrow>
               Inr (respond adapter c
                      (JObj [(''data'', JArr (map JObj shaped)), (''metadata'', metadata result)])
                      (case statusCode_opt options of None \<Rightarrow> 200 | Some code \<Rightarrow> code), w')))"

text \<open>\<^verbatim>\<open>response\<close>, for a single record: the same steps written out on the record,
  wrapped as \<^verbatim>\<open>{ data }\<close>.\<close>

definition response ::
  "('c, 'db, 'r) ContextAdapter \<Rightarrow> ('c \<Rightarrow> 'db world \<Rightarrow> 'e error + (obj \<times> 'db world)) \<Rightarrow>
   'e ResponseOptions \<Rightarrow> 'c \<Rightarrow> 'db world \<Rightarrow> 'e error + ('r \<times> 'db world)" where
  "response adapter dataFn options c w =
     (case dataFn c w of
        Inl e \<Rightarrow> Inl e
      | Inr (d, w') \<Rightarrow>
          (let d1 = (case omit_opt options of None \<Rightarrow> d | Some props \<Rightarrow> omit d props);
               d2 = (case pick_opt options of None \<Rightarrow> d1 | Some props \<Rightarrow> pick d1 props)
           in case (case render options of
                      None \<Rightarrow> Inr d2
                    | Some f \<Rightarrow> (case f d2 of Inl e \<Rightarrow> Inl (Thrown e) | Inr d3 \<Rightarrow> Inr d3)) of
                Inl e \<Rightarrow> Inl e
              | Inr d3 \<Rightarrow>
                  Inr (respond adapter c (JObj [(''data'', JObj d3)])
                         (case statusCode_opt options of None \<Rightarrow> 200 | Some code \<Rightarrow> code), w')))"

section \<open>A concrete environment\<close>

text \<open>
  The environment of the repository's example application, used to run the definitions
  on concrete requests: a context that holds its variables, route parameters and request
  body; the models \<^verbatim>\<open>users\<close> and \<^verbatim>\<open>things\<close> of the example (and a model
  \<^verbatim>\<open>flags\<close> with a boolean field); an in-memory store whose only operator is \<^verbatim>\<open>=\<close>.
\<close>

record ctx =
  ctx_vars :: obj
  ctx_params :: obj
  ctx_body :: jsval

definition zString :: zfield where
  "zString v = (case v of JStr s \<Rightarrow> Some v | _ \<Rightarrow> None)"

definition zBoolean :: zfield where
  "zBoolean v = (case v of JBool b \<Rightarrow> Some v | _ \<Rightarrow> None)"

definition zNullable :: "zfield \<Rightarrow> zfield" where
  "zNullable f v = (if v = JNull then Some JNull else f v)"

definition exampleModels :: "string \<Rightarrow> zshape" where
  "exampleModels model =
     (if model = ''users'' then [(''user_id'', zString), (''name'', zNullable zString)]
      else if model = ''things'' then
        [(''thing_id'', zString), (''user_id'', zString), (''name'', zString)]
      else if model = ''flags'' then [(''flag_id'', zString), (''active'', zBoolean)]
      else [])"

type_synonym tables = "string \<Rightarrow> obj list"

definition rowMatches :: "where_triple list \<Rightarrow> obj \<Rightarrow> bool" where
  "rowMatches ws row = list_all (\<lambda>(lhs, op, rhs). op = ''='' \<and> js_get row lhs = rhs) ws"

definition assign :: "obj \<Rightarrow> obj \<Rightarrow> obj" where
  "assign row attributes = foldl (\<lambda>r (k, v). js_set r k v) row attributes"

definition memoryEngine :: "tables engine" where
  "memoryEngine =
     \<lparr>execSelect = (\<lambda>db q. filter (rowMatches (wheres q)) (db (table q))),
      execInsert = (\<lambda>db model attributes conflict. ([attributes], db(model := db model @ [attributes]))),
      execUpdate = (\<lambda>db q attributes.
         (map (\<lambda>r. assign r attributes) (filter (rowMatches (wheres q)) (db (table q))),
          db(table q := map (\<lambda>r. if rowMatches (wheres q) r then assign r attributes else r)
                          (db (table q))))),
      execDelete = (\<lambda>db q.
         (length (filter (rowMatches (wheres q)) (db (table q))),
          db(table q := filter (\<lambda>r. \<not> rowMatches (wheres q) r) (db (table q)))))\<rparr>"

definition exampleAdapter :: "(ctx, tables, nat \<times> jsval) ContextAdapter" where
  "exampleAdapter =
     \<lparr>useDatabase = (\<lambda>c. memoryEngine),
      get_ctx = (\<lambda>c key. js_get (ctx_vars c) key),
      set_ctx = (\<lambda>c key v. c\<lparr>ctx_vars := js_set (ctx_vars c) key v\<rparr>),
      getRequestParams = ctx_params,
      getRequestBody = ctx_body,
      respond = (\<lambda>c body code. (code, body))\<rparr>"

definition exampleWorld :: "tables \<Rightarrow> tables world" where
  "exampleWorld db =
     \<lparr>database = db, uuids = (\<lambda>n. ''uuid-'' @ replicate n CHR ''x''),
      clock = (\<lambda>n. ''2023-01-01T00:00:00.000Z''), tick = 0\<rparr>"

definition emptyTables :: tables where
  "emptyTables = (\<lambda>t. [])"

definition request :: "obj \<Rightarrow> obj \<Rightarrow> jsval \<Rightarrow> ctx" where
  "request vars params body = \<lparr>ctx_vars = vars, ctx_params = params, ctx_body = body\<rparr>"

text \<open>A store with one thing of user \<^verbatim>\<open>u1\<close>, not active.\<close>

definition thingsTables :: tables where
  "thingsTables = emptyTables(''things'' :=
     [[(''thing_id'', JStr ''t1''), (''user_id'', JStr ''u1''), (''name'', JStr ''a''),
       (''active'', JBool False)]])"

lemmas example_defs =
  createAttributesPickerFunction_def exampleModels_def exampleAdapter_def exampleWorld_def
  request_def js_get_def js_has_def js_keys_def coerceBoolean_def zString_def zBoolean_def
  zNullable_def emptyTables_def

lemmas action_defs = create_def update_def updateQuery_def whereIfSet_def applyWhere_def
  getScopes_def noLoadOptions_def onTable_def qwhere_def takeFirst_def memoryEngine_def
  rowMatches_def assign_def

lemmas more_defs = destroy_def destroyFound_def destroyQuery_def load_def loadQuery_def
  destroyAsLoad_def singularize_def thingsTables_def

section \<open>Plain objects and the keys of a resolved record\<close>

lemma map_of_js_set: "map_of (js_set ob k v) = (map_of ob)(k \<mapsto> v)"
  by (induction ob k v rule: js_set.induct) auto




















section \<open>Mass-assignment protection\<close>



section \<open>Boolean coercion\<close>


















section \<open>Errors of attribute resolution in create and update\<close>

lemma create_picker_Inl:
  "createAttributesPickerFunction models model adapter (create_attributes createOptions) c
     (getRequestBody adapter c) args w = Inl e \<Longrightarrow>
   create models adapter model createOptions c args w = Inl e"
  by (simp add: create_def)

lemma update_query_Inl:
  "updateQuery adapter model updateOptions c = Inl e \<Longrightarrow>
   update models adapter model updateOptions c args w = Inl e"
  by (simp add: update_def)

lemma update_picker_Inl:
  "updateQuery adapter model updateOptions c = Inr q \<Longrightarrow>
   createAttributesPickerFunction models model adapter (update_attributes updateOptions) c
     (getRequestBody adapter c) args w = Inl e \<Longrightarrow>
   update models adapter model updateOptions c args w = Inl e"
  by (simp add: update_def)

section \<open>A missing extra-arguments bag\<close>

lemma resolveSource_total:
  "src \<noteq> Arg \<Longrightarrow> \<forall>f. src = Fn f \<longrightarrow> (\<exists>v. f c = Inr v \<and> v \<noteq> JNull) \<Longrightarrow>
   \<exists>a' w'. resolveSource adapter c args key src a w = Inr (a', w')"
proof (cases src)
  case (Fn f)
  assume "\<forall>g. src = Fn g \<longrightarrow> (\<exists>v. g c = Inr v \<and> v \<noteq> JNull)"
  with Fn obtain v where "f c = Inr v" "v \<noteq> JNull" by blast
  with Fn show ?thesis by (cases v) auto
qed auto

lemma resolveAll_without_args_fails:
  "(key, Arg) \<in> set picker \<Longrightarrow> \<exists>e. resolveAll adapter c None picker a w = Inl e"
proof (induction picker arbitrary: a w)
  case Nil
  then show ?case by simp
next
  case (Cons p picker)
  obtain k s where p: "p = (k, s)" by (cases p)
  show ?case
  proof (cases "resolveSource adapter c None k s a w")
    case (Inl e)
    with p show ?thesis by simp
  next
    case (Inr r)
    obtain a1 w1 where r: "r = (a1, w1)" by (cases r)
    from Inr have "s \<noteq> Arg" by auto
    with Cons.prems p have "(key, Arg) \<in> set picker" by auto
    from Cons.IH [OF this] Inr r p show ?thesis by simp
  qed
qed

lemma resolveAll_without_args_TypeError:
  "(key, Arg) \<in> set picker \<Longrightarrow>
   \<forall>k f. (k, Fn f) \<in> set picker \<longrightarrow> (\<exists>v. f c = Inr v \<and> v \<noteq> JNull) \<Longrightarrow>
   resolveAll adapter c None picker a w = Inl (TypeError ReadPropertyOfUndefined)"
proof (induction picker arbitrary: a w)
  case Nil
  then show ?case by simp
next
  case (Cons p picker)
  obtain k s where p: "p = (k, s)" by (cases p)
  show ?case
  proof (cases "s = Arg")
    case True
    with p show ?thesis by simp
  next
    case False
    from Cons.prems(2) p have "\<forall>f. s = Fn f \<longrightarrow> (\<exists>v. f c = Inr v \<and> v \<noteq> JNull)"
      by auto
    from resolveSource_total [OF False this] obtain a1 w1 where
      step: "resolveSource adapter c None k s a w = Inr (a1, w1)" by blast
    from Cons.prems(1) p False have mem: "(key, Arg) \<in> set picker" by auto
    from Cons.prems(2) have
      "\<forall>k f. (k, Fn f) \<in> set picker \<longrightarrow> (\<exists>v. f c = Inr v \<and> v \<noteq> JNull)" by auto
    from Cons.IH [OF mem this] step p show ?thesis by simp
  qed
qed

lemma picker_without_args_fails:
  fixes picker :: "('c, 'e) AttributesPicker"
  assumes "(key, Arg) \<in> set picker"
  shows "\<exists>e. createAttributesPickerFunction models model adapter picker c payload None w = Inl e"
proof (cases "zparse (zpick (models model) (schemaKeys picker [])) payload :: 'e error + obj")
  case (Inl e)
  then show ?thesis by (simp add: createAttributesPickerFunction_def)
next
  case (Inr a)
  with resolveAll_without_args_fails [OF assms, of adapter c a w] show ?thesis
    by (simp add: createAttributesPickerFunction_def)
qed

lemma picker_without_args_TypeError:
  fixes picker :: "('c, 'e) AttributesPicker"
  assumes "(key, Arg) \<in> set picker"
    and "\<forall>k f. (k, Fn f) \<in> set picker \<longrightarrow> (\<exists>v. f c = Inr v \<and> v \<noteq> JNull)"
    and "zparse (zpick (models model) (schemaKeys picker [])) payload = (Inr a :: 'e error + obj)"
  shows "createAttributesPickerFunction models model adapter picker c payload None w
           = Inl (TypeError ReadPropertyOfUndefined)"
  using resolveAll_without_args_TypeError [OF assms(1,2), of adapter a w] assms(3)
  by (simp add: createAttributesPickerFunction_def)

text \<open>
  Claim C10. When the attribute specification of a create or update action has a field
  whose source is \<^verbatim>\<open>arg\<close> and the action is invoked without an extra-arguments bag,
  the action throws: it never returns a record. The error is the \<open>TypeError\<close> of
  reading a property of \<^verbatim>\<open>undefined\<close> whenever nothing fails before the bag is
  indexed, that is when the payload passes the schema, the custom attribute functions
  return (and do not return \<^verbatim>\<open>null\<close>) and, for update, the \<^verbatim>\<open>where\<close> function
  returns. No \<^verbatim>\<open>null\<close> or \<^verbatim>\<open>undefined\<close> is put in place of the missing argument.
\<close>

theorem C10_absent_args_bag:
  fixes createOptions :: "('c, 'e) CreateOptions" and updateOptions :: "('c, 'e) UpdateOptions"
  shows
   "((key, Arg) \<in> set (create_attributes createOptions) \<longrightarrow>
       (\<exists>e. create models adapter model createOptions c None w = Inl e) \<and>
       ((\<forall>k f. (k, Fn f) \<in> set (create_attributes createOptions) \<longrightarrow>
                (\<exists>v. f c = Inr v \<and> v \<noteq> JNull)) \<longrightarrow>
        (\<exists>a. zparse (zpick (models model) (schemaKeys (create_attributes createOptions) []))
                (getRequestBody adapter c) = (Inr a :: 'e error + obj)) \<longrightarrow>
        create models adapter model createOptions c None w
          = Inl (TypeError ReadPropertyOfUndefined))) \<and>
    ((key, Arg) \<in> set (update_attributes updateOptions) \<longrightarrow>
       (\<exists>e. update models adapter model updateOptions c None w = Inl e) \<and>
       ((\<forall>k f. (k, Fn f) \<in> set (update_attributes updateOptions) \<longrightarrow>
                (\<exists>v. f c = Inr v \<and> v \<noteq> JNull)) \<longrightarrow>
        (\<exists>a. zparse (zpick (models model) (schemaKeys (update_attributes updateOptions) []))
                (getRequestBody adapter c) = (Inr a :: 'e error + obj)) \<longrightarrow>
        (\<exists>q. updateQuery adapter model updateOptions c = Inr q) \<longrightarrow>
        update models adapter model updateOptions c None w
          = Inl (TypeError ReadPropertyOfUndefined)))"
proof (intro conjI impI)
  assume m: "(key, Arg) \<in> set (create_attributes createOptions)"
  from picker_without_args_fails [OF m, of models model adapter c "getRequestBody adapter c" w]
  obtain e where "createAttributesPickerFunction models model adapter
      (create_attributes createOptions) c (getRequestBody adapter c) None w = Inl e" by blast
  from create_picker_Inl [OF this]
  show "\<exists>e. create models adapter model createOptions c None w = Inl e" by blast
  assume fns: "\<forall>k f. (k, Fn f) \<in> set (create_attributes createOptions) \<longrightarrow>
                (\<exists>v. f c = Inr v \<and> v \<noteq> JNull)"
    and "\<exists>a. zparse (zpick (models model) (schemaKeys (create_attributes createOptions) []))
                (getRequestBody adapter c) = (Inr a :: 'e error + obj)"
  then obtain a where pa: "zparse (zpick (models model)
      (schemaKeys (create_attributes createOptions) [])) (getRequestBody adapter c)
      = (Inr a :: 'e error + obj)" by blast
  from create_picker_Inl [OF picker_without_args_TypeError [where models=models and model=model, OF m fns pa]]
  show "create models adapter model createOptions c None w
          = Inl (TypeError ReadPropertyOfUndefined)" .
next
  assume m: "(key, Arg) \<in> set (update_attributes updateOptions)"
  from picker_without_args_fails [OF m, of models model adapter c "getRequestBody adapter c" w]
  obtain e where pe: "createAttributesPickerFunction models model adapter
      (update_attributes updateOptions) c (getRequestBody adapter c) None w = Inl e" by blast
  show "\<exists>e. update models adapter model updateOptions c None w = Inl e"
  proof (cases "updateQuery adapter model updateOptions c")
    case (Inl e')
    from update_query_Inl [OF this] show ?thesis by blast
  next
    case (Inr q)
    from update_picker_Inl [OF this pe] show ?thesis by blast
  qed
  assume fns: "\<forall>k f. (k, Fn f) \<in> set (update_attributes updateOptions) \<longrightarrow>
                (\<exists>v. f c = Inr v \<and> v \<noteq> JNull)"
    and "\<exists>a. zparse (zpick (models model) (schemaKeys (update_attributes updateOptions) []))
                (getRequestBody adapter c) = (Inr a :: 'e error + obj)"
    and "\<exists>q. updateQuery adapter model updateOptions c = Inr q"
  then obtain a q where pa: "zparse (zpick (models model)
      (schemaKeys (update_attributes updateOptions) [])) (getRequestBody adapter c)
      = (Inr a :: 'e error + obj)"
    and uq: "updateQuery adapter model updateOptions c = Inr q" by blast
  from update_picker_Inl [OF uq picker_without_args_TypeError [where models=models and model=model, OF m fns pa]]
  show "update models adapter model updateOptions c None w
          = Inl (TypeError ReadPropertyOfUndefined)" .
qed


theorem C10_absent_args_bag_witness:
  "create exampleModels exampleAdapter ''things''
       \<lparr>create_attributes = [(''thing_id'', Uuid), (''user_id'', Arg), (''name'', Payload)],
        onConflict = None\<rparr>
       (request [] [] (JObj [(''name'', JStr ''a'')])) None (exampleWorld emptyTables)
     = (Inl (TypeError ReadPropertyOfUndefined) :: unit error + (jsval \<times> tables world))
   \<and> update exampleModels exampleAdapter ''things''
       \<lparr>update_where = None, update_attributes = [(''user_id'', Arg), (''name'', Payload)]\<rparr>
       (request [] [(''thing_id'', JStr ''t1'')] (JObj [(''name'', JStr ''a'')])) None
       (exampleWorld emptyTables)
     = (Inl (TypeError ReadPropertyOfUndefined) :: unit error + (jsval \<times> tables world))"
proof -
  let ?co = "\<lparr>create_attributes = [(''thing_id'', Uuid), (''user_id'', Arg), (''name'', Payload)],
        onConflict = None\<rparr> :: (ctx, unit) CreateOptions"
  let ?uo = "\<lparr>update_where = None, update_attributes = [(''user_id'', Arg), (''name'', Payload)]\<rparr>
        :: (ctx, unit) UpdateOptions"
  let ?c1 = "request [] [] (JObj [(''name'', JStr ''a'')])"
  let ?c2 = "request [] [(''thing_id'', JStr ''t1'')] (JObj [(''name'', JStr ''a'')])"
  have c1: "(''user_id'', Arg) \<in> set (create_attributes ?co)" by simp
  have c2: "\<forall>k f. (k, Fn f) \<in> set (create_attributes ?co) \<longrightarrow>
              (\<exists>v. f ?c1 = Inr v \<and> v \<noteq> JNull)" by simp
  have c3: "\<exists>a. zparse (zpick (exampleModels ''things'') (schemaKeys (create_attributes ?co) []))
              (getRequestBody exampleAdapter ?c1) = (Inr a :: unit error + obj)"
    by (simp add: example_defs)
  have u1: "(''user_id'', Arg) \<in> set (update_attributes ?uo)" by simp
  have u2: "\<forall>k f. (k, Fn f) \<in> set (update_attributes ?uo) \<longrightarrow>
              (\<exists>v. f ?c2 = Inr v \<and> v \<noteq> JNull)" by simp
  have u3: "\<exists>a. zparse (zpick (exampleModels ''things'') (schemaKeys (update_attributes ?uo) []))
              (getRequestBody exampleAdapter ?c2) = (Inr a :: unit error + obj)"
    by (simp add: example_defs)
  have u4: "\<exists>q. updateQuery exampleAdapter ''things'' ?uo ?c2 = Inr q"
    by (simp add: action_defs example_defs)
  from C10_absent_args_bag [where key="''user_id''" and createOptions="?co"
      and models=exampleModels and adapter=exampleAdapter and model="''things''" and c="?c1"
      and w="exampleWorld emptyTables"] c1 c2 c3
  have "create exampleModels exampleAdapter ''things'' ?co ?c1 None (exampleWorld emptyTables)
          = Inl (TypeError ReadPropertyOfUndefined)"
    by blast
  moreover
  from C10_absent_args_bag [where key="''user_id''" and updateOptions="?uo"
      and models=exampleModels and adapter=exampleAdapter and model="''things''" and c="?c2"
      and w="exampleWorld emptyTables"] u1 u2 u3 u4
  have "update exampleModels exampleAdapter ''things'' ?uo ?c2 None (exampleWorld emptyTables)
          = Inl (TypeError ReadPropertyOfUndefined)"
    by blast
  ultimately show ?thesis by simp
qed

section \<open>Validation failures\<close>

lemma map_of_schemaKeys:
  "map_of (schemaKeys picker acc) k =
     (if (k, Payload) \<in> set picker then Some (JBool True) else map_of acc k)"
  by (induction picker acc rule: schemaKeys.induct) (auto simp: map_of_js_set)

lemma zpick_member:
  "(key, v) \<in> set ks \<Longrightarrow> truthy v \<Longrightarrow> map_of shape key = Some f \<Longrightarrow>
   (key, f) \<in> set (zpick shape ks)"
  by (induction shape ks rule: zpick.induct) (auto split: option.splits)

lemma parseFields_issue:
  "(key, f) \<in> set shape \<Longrightarrow> f (js_get input key) = None \<Longrightarrow>
   InvalidField key \<in> set (fst (parseFields shape input))"
  by (induction shape input rule: parseFields.induct) (auto split: option.splits)

lemma picked_payload_field:
  assumes "(key, Payload) \<in> set picker" and "map_of shape key = Some f"
  shows "(key, f) \<in> set (zpick shape (schemaKeys picker []))"
proof -
  from assms(1) have "map_of (schemaKeys picker []) key = Some (JBool True)"
    by (simp add: map_of_schemaKeys)
  then have "(key, JBool True) \<in> set (schemaKeys picker [])"
    by (rule map_of_SomeD)
  from zpick_member [OF this _ assms(2)] show ?thesis by simp
qed

lemma picker_invalid_field:
  fixes picker :: "('c, 'e) AttributesPicker"
  assumes "(key, Payload) \<in> set picker" and "map_of (models model) key = Some f"
    and "f (js_get input key) = None"
  shows "\<exists>issues. InvalidField key \<in> set issues \<and>
           createAttributesPickerFunction models model adapter picker c (JObj input) args w
             = Inl (Zod issues)"
proof -
  let ?shape = "zpick (models model) (schemaKeys picker [])"
  from parseFields_issue [OF picked_payload_field [OF assms(1,2)] assms(3)]
  have mem: "InvalidField key \<in> set (fst (parseFields ?shape input))" .
  then have "fst (parseFields ?shape input) \<noteq> []" by auto
  then have "createAttributesPickerFunction models model adapter picker c (JObj input) args w
               = Inl (Zod (fst (parseFields ?shape input)))"
    by (simp add: createAttributesPickerFunction_def)
  with mem show ?thesis by blast
qed

text \<open>
  Claim C2, as amended. When a \<^verbatim>\<open>payload\<close>-sourced field of the model fails its
  schema on the request body, attribute resolution fails with the validation library's
  own error, a \<open>Zod\<close> error whose issues name the field; that error is not a
  \<open>CrudError\<close> of this layer (which has the kinds unauthorized, forbidden and not
  found, and none for validation). Create passes the error on unchanged, and so does
  update once its \<^verbatim>\<open>where\<close> option has been applied.
\<close>

theorem C2_validation_error:
  fixes picker :: "('c, 'e) AttributesPicker"
  assumes "(key, Payload) \<in> set picker" and "map_of (models model) key = Some f"
    and "getRequestBody adapter c = JObj input" and "f (js_get input key) = None"
  shows "\<exists>issues. InvalidField key \<in> set issues \<and>
           createAttributesPickerFunction models model adapter picker c
             (getRequestBody adapter c) args w = Inl (Zod issues) \<and>
           \<not> is_Crud (Zod issues :: 'e error) \<and>
           (create_attributes createOptions = picker \<longrightarrow>
              create models adapter model createOptions c args w = Inl (Zod issues)) \<and>
           (update_attributes updateOptions = picker \<longrightarrow>
              (\<exists>q. updateQuery adapter model updateOptions c = Inr q) \<longrightarrow>
              update models adapter model updateOptions c args w = Inl (Zod issues))"
proof -
  from picker_invalid_field [where models=models and model=model and f=f and adapter=adapter
      and c=c and args=args and w=w, OF assms(1,2,4)] assms(3)
  obtain issues where mem: "InvalidField key \<in> set issues" and
    res: "createAttributesPickerFunction models model adapter picker c
            (getRequestBody adapter c) args w = Inl (Zod issues)"
    by auto
  have "create models adapter model createOptions c args w = Inl (Zod issues)"
    if "create_attributes createOptions = picker"
    using that res by (simp add: create_picker_Inl)
  moreover have "update models adapter model updateOptions c args w = Inl (Zod issues)"
    if "update_attributes updateOptions = picker"
      and "\<exists>q. updateQuery adapter model updateOptions c = Inr q"
    using that res by (auto simp: update_picker_Inl)
  ultimately show ?thesis using mem res by auto
qed

theorem C2_validation_error_witness:
  "create exampleModels exampleAdapter ''users''
       \<lparr>create_attributes = [(''user_id'', Uuid), (''name'', Payload)], onConflict = None\<rparr>
       (request [] [] (JObj [(''name'', JNum 42)])) None (exampleWorld emptyTables)
     = (Inl (Zod [InvalidField ''name'']) :: unit error + (jsval \<times> tables world))"
proof -
  let ?picker = "[(''user_id'', Uuid), (''name'', Payload)] :: (ctx, unit) AttributesPicker"
  let ?co = "\<lparr>create_attributes = ?picker, onConflict = None\<rparr>"
  let ?c = "request [] [] (JObj [(''name'', JNum 42)])"
  have h1: "(''name'', Payload) \<in> set ?picker" by simp
  have h2: "map_of (exampleModels ''users'') ''name'' = Some (zNullable zString)"
    by (simp add: exampleModels_def)
  have h3: "getRequestBody exampleAdapter ?c = JObj [(''name'', JNum 42)]"
    by (simp add: example_defs)
  have h4: "zNullable zString (js_get [(''name'', JNum 42)] ''name'') = None"
    by (simp add: example_defs)
  from C2_validation_error [where models=exampleModels and model="''users''"
      and f="zNullable zString" and adapter=exampleAdapter and createOptions="?co"
      and args=None and w="exampleWorld emptyTables", OF h1 h2 h3 h4]
  obtain issues where
    "create exampleModels exampleAdapter ''users'' ?co ?c None (exampleWorld emptyTables)
       = (Inl (Zod issues) :: unit error + (jsval \<times> tables world))"
    by auto
  moreover have "create exampleModels exampleAdapter ''users'' ?co ?c None (exampleWorld emptyTables)
       = (Inl (Zod [InvalidField ''name'']) :: unit error + (jsval \<times> tables world))"
    by (simp add: example_defs action_defs)
  ultimately show ?thesis by simp
qed

text \<open>The claim as stated asks for an error kind of this layer; on a name that is not a
  string the create action of the example throws the library's error instead.\<close>

theorem C2_validation_error_counterexample:
  "create exampleModels exampleAdapter ''users''
       \<lparr>create_attributes = [(''user_id'', Uuid), (''name'', Payload)], onConflict = None\<rparr>
       (request [] [] (JObj [(''name'', JNum 42)])) None (exampleWorld emptyTables)
     = (Inl (Zod [InvalidField ''name'']) :: unit error + (jsval \<times> tables world))
   \<and> \<not> is_Crud (Zod [InvalidField ''name''] :: unit error)"
  by (simp add: example_defs action_defs)

section \<open>An asynchronous request body\<close>

text \<open>
  Claim C4. The claim says that an asynchronous request body is validated as the value it
  resolves to. In \<^verbatim>\<open>create\<close> and \<^verbatim>\<open>update\<close> the result of
  \<^verbatim>\<open>getRequestBody\<close> goes to the schema without an \<^verbatim>\<open>await\<close>: a body that is a
  promise of \<^verbatim>\<open>{name: "Ann"}\<close> is rejected as not being an object, while the same
  body given directly is accepted.
\<close>

theorem C4_promise_body_is_not_awaited:
  "create exampleModels exampleAdapter ''users''
       \<lparr>create_attributes = [(''user_id'', Uuid), (''name'', Payload)], onConflict = None\<rparr>
       (request [] [] (JPromise (JObj [(''name'', JStr ''Ann'')]))) None
       (exampleWorld emptyTables)
     = (Inl (Zod [NotAnObject]) :: unit error + (jsval \<times> tables world))
   \<and> map_sum id fst
       (create exampleModels exampleAdapter ''users''
          \<lparr>create_attributes = [(''user_id'', Uuid), (''name'', Payload)], onConflict = None\<rparr>
          (request [] [] (JObj [(''name'', JStr ''Ann'')])) None (exampleWorld emptyTables))
     = (Inr (JObj [(''name'', JStr ''Ann''), (''user_id'', JStr ''uuid-'')]) :: unit error + jsval)
   \<and> update exampleModels exampleAdapter ''users''
       \<lparr>update_where = None, update_attributes = [(''name'', Payload)]\<rparr>
       (request [] [(''user_id'', JStr ''u1'')] (JPromise (JObj [(''name'', JStr ''Ann'')]))) None
       (exampleWorld (emptyTables(''users'' := [[(''user_id'', JStr ''u1''), (''name'', JNull)]])))
     = (Inl (Zod [NotAnObject]) :: unit error + (jsval \<times> tables world))
   \<and> map_sum id fst
       (update exampleModels exampleAdapter ''users''
          \<lparr>update_where = None, update_attributes = [(''name'', Payload)]\<rparr>
          (request [] [(''user_id'', JStr ''u1'')] (JObj [(''name'', JStr ''Ann'')])) None
          (exampleWorld (emptyTables(''users'' := [[(''user_id'', JStr ''u1''), (''name'', JNull)]]))))
     = (Inr (JObj [(''user_id'', JStr ''u1''), (''name'', JStr ''Ann'')]) :: unit error + jsval)"
  by (simp add: example_defs action_defs)

section \<open>Not found\<close>

lemma zparse_not_Crud: "zparse shape payload \<noteq> Inl (Crud x)"
  by (cases payload) auto

lemma resolveSource_not_Crud: "resolveSource adapter c args key src a w \<noteq> Inl (Crud x)"
  by (cases src) (auto split: option.splits sum.splits jsval.splits)

lemma resolveAll_not_Crud: "resolveAll adapter c args picker a w \<noteq> Inl (Crud x)"
proof (induction picker arbitrary: a w)
  case Nil
  then show ?case by simp
next
  case (Cons p picker)
  obtain k s where p: "p = (k, s)" by (cases p)
  show ?case
  proof (cases "resolveSource adapter c args k s a w")
    case (Inl e)
    with resolveSource_not_Crud [of adapter c args k s a w x] p show ?thesis by auto
  next
    case (Inr r)
    with Cons.IH p show ?thesis by (cases r) simp
  qed
qed

lemma picker_not_Crud:
  fixes picker :: "('c, 'e) AttributesPicker"
  shows "createAttributesPickerFunction models model adapter picker c payload args w
           \<noteq> Inl (Crud x)"
proof (cases "zparse (zpick (models model) (schemaKeys picker [])) payload :: 'e error + obj")
  case (Inl e)
  with zparse_not_Crud [of "zpick (models model) (schemaKeys picker [])" payload x]
  show ?thesis by (auto simp: createAttributesPickerFunction_def)
next
  case (Inr a)
  with resolveAll_not_Crud [of adapter c args picker a w x]
  show ?thesis by (simp add: createAttributesPickerFunction_def)
qed

lemma create_not_Crud: "create models adapter model createOptions c args w \<noteq> Inl (Crud x)"
  using picker_not_Crud [of models model adapter "create_attributes createOptions" c
      "getRequestBody adapter c" args w x]
  by (auto simp: create_def split: sum.splits prod.splits)

lemma update_zero_rows:
  "updateQuery adapter model updateOptions c = Inr q \<Longrightarrow>
   createAttributesPickerFunction models model adapter (update_attributes updateOptions) c
     (getRequestBody adapter c) args w = Inr (attributes, w1) \<Longrightarrow>
   fst (execUpdate (useDatabase adapter c) (database w1) q attributes) = [] \<Longrightarrow>
   update models adapter model updateOptions c args w = Inl (Crud notFound)"
  by (auto simp: update_def split: prod.splits list.splits)

lemma destroyFound_zero_rows:
  "destroyQuery adapter model destroyOptions c = Inr q \<Longrightarrow>
   fst (execDelete (useDatabase adapter c) (database w) q) = 0 \<Longrightarrow>
   destroyFound adapter model destroyOptions c w = Inl (Crud notFound)"
  by (auto simp: destroyFound_def split: prod.splits)

lemma loadQuery_destroyAsLoad:
  "loadQuery adapter model (destroyAsLoad destroyOptions) c =
   destroyQuery adapter model destroyOptions c"
  by (simp add: loadQuery_def destroyQuery_def destroyAsLoad_def getScopes_def noLoadOptions_def)

lemma destroy_zero_rows:
  assumes "destroyQuery adapter model destroyOptions c = Inr q"
    and "fst (execDelete (useDatabase adapter c) (database w) q) = 0"
  shows "destroy adapter model destroyOptions c w = Inl (Crud notFound)"
proof (cases "get_ctx adapter c (singularize model (destroyAsLoad destroyOptions)) = JUndefined")
  case False
  with destroyFound_zero_rows [OF assms] show ?thesis by (simp add: destroy_def)
next
  case True
  show ?thesis
  proof (cases "execSelect (useDatabase adapter c) (database w) q")
    case Nil
    with True assms(1) show ?thesis
      by (simp add: destroy_def load_def loadQuery_destroyAsLoad)
  next
    case (Cons r rs)
    with True assms(1) destroyFound_zero_rows [OF assms] show ?thesis
      by (simp add: destroy_def load_def loadQuery_destroyAsLoad)
  qed
qed

text \<open>
  Claim C3. When the scoped update returns no row (none matched), \<^verbatim>\<open>update\<close> throws
  the not-found error; when the scoped delete reports zero deleted rows, \<^verbatim>\<open>destroy\<close>
  throws it (whether the record was cached or had to be loaded first); and \<^verbatim>\<open>create\<close>
  throws no \<open>CrudError\<close> at all, so never the not-found error (what a caller-supplied
  attribute function throws is passed on as that function's own error, \<open>Thrown\<close>).
  The update is run once its query is built and its attributes are resolved, the delete
  once its query is built.
\<close>

theorem C3_not_found:
  fixes updateOptions :: "('c, 'e) UpdateOptions"
    and destroyOptions :: "('c, 'e) DestroyOptions"
    and createOptions :: "('c, 'e) CreateOptions"
  shows
   "(\<forall>q attributes w1.
        updateQuery adapter model updateOptions c = Inr q \<longrightarrow>
        createAttributesPickerFunction models model adapter (update_attributes updateOptions) c
          (getRequestBody adapter c) args w = Inr (attributes, w1) \<longrightarrow>
        fst (execUpdate (useDatabase adapter c) (database w1) q attributes) = [] \<longrightarrow>
        update models adapter model updateOptions c args w = Inl (Crud notFound)) \<and>
    (\<forall>q. destroyQuery adapter model destroyOptions c = Inr q \<longrightarrow>
        fst (execDelete (useDatabase adapter c) (database w) q) = 0 \<longrightarrow>
        destroy adapter model destroyOptions c w = Inl (Crud notFound)) \<and>
    (\<forall>x. create models adapter model createOptions c args w \<noteq> Inl (Crud x))"
  using update_zero_rows [of adapter model updateOptions c _ models args w]
    destroy_zero_rows [of adapter model destroyOptions c _ w]
    create_not_Crud [of models adapter model createOptions c args w]
  by blast

theorem C3_not_found_witness:
  "update exampleModels exampleAdapter ''things''
       \<lparr>update_where = Some (WhereList [(''active'', ''='', JBool True)]),
        update_attributes = [(''name'', Payload)]\<rparr>
       (request [] [(''user_id'', JStr ''u1'')] (JObj [(''name'', JStr ''b'')])) None
       (exampleWorld thingsTables)
     = (Inl (Crud notFound) :: unit error + (jsval \<times> tables world))
   \<and> destroy exampleAdapter ''things''
       \<lparr>destroy_where = Some (WhereList [(''active'', ''='', JBool True)]), destroy_as = None\<rparr>
       (request [(''thing'', JObj [(''thing_id'', JStr ''t1'')])] [(''user_id'', JStr ''u1'')]
          JUndefined)
       (exampleWorld thingsTables)
     = (Inl (Crud notFound) :: unit error + (jsval \<times> tables world))"
proof -
  let ?uo = "\<lparr>update_where = Some (WhereList [(''active'', ''='', JBool True)]),
        update_attributes = [(''name'', Payload)]\<rparr> :: (ctx, unit) UpdateOptions"
  let ?do = "\<lparr>destroy_where = Some (WhereList [(''active'', ''='', JBool True)]),
        destroy_as = None\<rparr> :: (ctx, unit) DestroyOptions"
  let ?cu = "request [] [(''user_id'', JStr ''u1'')] (JObj [(''name'', JStr ''b'')])"
  let ?cd = "request [(''thing'', JObj [(''thing_id'', JStr ''t1'')])]
               [(''user_id'', JStr ''u1'')] JUndefined"
  let ?q = "\<lparr>table = ''things'',
             wheres = [(''user_id'', ''='', JStr ''u1''), (''active'', ''='', JBool True)],
             custom = []\<rparr>"
  have u1: "updateQuery exampleAdapter ''things'' ?uo ?cu = Inr ?q"
    by (simp add: action_defs example_defs)
  have u2: "createAttributesPickerFunction exampleModels ''things'' exampleAdapter
      (update_attributes ?uo) ?cu (getRequestBody exampleAdapter ?cu) None
      (exampleWorld thingsTables) = Inr ([(''name'', JStr ''b'')], exampleWorld thingsTables)"
    by (simp add: example_defs)
  have u3: "fst (execUpdate (useDatabase exampleAdapter ?cu)
      (database (exampleWorld thingsTables)) ?q [(''name'', JStr ''b'')]) = []"
    by (simp add: action_defs example_defs more_defs)
  have d1: "destroyQuery exampleAdapter ''things'' ?do ?cd = Inr ?q"
    by (simp add: action_defs example_defs more_defs)
  have d2: "fst (execDelete (useDatabase exampleAdapter ?cd)
      (database (exampleWorld thingsTables)) ?q) = 0"
    by (simp add: action_defs example_defs more_defs)
  from C3_not_found [where adapter=exampleAdapter and model="''things''" and updateOptions="?uo"
      and c="?cu" and models=exampleModels and args=None and w="exampleWorld thingsTables"]
    u1 u2 u3
  have "update exampleModels exampleAdapter ''things'' ?uo ?cu None (exampleWorld thingsTables)
          = Inl (Crud notFound)"
    by blast
  moreover
  from C3_not_found [where adapter=exampleAdapter and model="''things''"
      and destroyOptions="?do" and c="?cd" and w="exampleWorld thingsTables"] d1 d2
  have "destroy exampleAdapter ''things'' ?do ?cd (exampleWorld thingsTables)
          = Inl (Crud notFound)"
    by blast
  ultimately show ?thesis by simp
qed

section \<open>Cached records and the singular name\<close>

text \<open>A record stored by \<^verbatim>\<open>loader\<close> is the one \<^verbatim>\<open>show\<close> returns afterwards, for an
  adapter whose \<^verbatim>\<open>get\<close> reads back what \<^verbatim>\<open>set\<close> stored.\<close>

lemma loader_then_show:
  assumes "loader adapter model loadOptions c w = Inr (c', w')"
    and "\<And>key v. get_ctx adapter (set_ctx adapter c key v) key = v"
  shows "\<exists>r. load adapter c model loadOptions w = Inr (JObj r, w') \<and>
             show adapter model loadOptions c' w' = Inr (JObj r, w')"
proof -
  from assms(1) obtain d where
    l: "load adapter c model loadOptions w = Inr (d, w')" and
    c': "c' = set_ctx adapter c (singularize model loadOptions) d"
    by (auto simp: loader_def split: sum.splits)
  from l obtain r where d: "d = JObj r"
    by (auto simp: load_def split: sum.splits list.splits)
  from c' d assms(2) have "get_ctx adapter c' (singularize model loadOptions) = JObj r"
    by simp
  with l d show ?thesis by (simp add: show_def)
qed

text \<open>
  Claim C5, as amended. When the contextual store holds a value other than
  \<^verbatim>\<open>undefined\<close> under the singular key, \<^verbatim>\<open>show\<close> returns that value and leaves the
  store alone, and \<^verbatim>\<open>destroy\<close> takes it in place of the load and goes on to its scoped
  delete; otherwise both first run the scoped single-record load. The singular key is the
  \<^verbatim>\<open>as\<close> option when it is given and is not the empty string, and else the model
  name without its last character.
\<close>

theorem C5_cached_record:
  fixes showOptions :: "('c, 'e) LoadOptions" and destroyOptions :: "('c, 'e) DestroyOptions"
  shows
   "(get_ctx adapter c (singularize model showOptions) \<noteq> JUndefined \<longrightarrow>
       show adapter model showOptions c w
         = Inr (get_ctx adapter c (singularize model showOptions), w)) \<and>
    (get_ctx adapter c (singularize model showOptions) = JUndefined \<longrightarrow>
       show adapter model showOptions c w = load adapter c model showOptions w) \<and>
    (get_ctx adapter c (singularize model (destroyAsLoad destroyOptions)) \<noteq> JUndefined \<longrightarrow>
       destroy adapter model destroyOptions c w = destroyFound adapter model destroyOptions c w) \<and>
    (get_ctx adapter c (singularize model (destroyAsLoad destroyOptions)) = JUndefined \<longrightarrow>
       destroy adapter model destroyOptions c w =
         (case load adapter c model (destroyAsLoad destroyOptions) w of
            Inl e \<Rightarrow> Inl e
          | Inr (r, w') \<Rightarrow> destroyFound adapter model destroyOptions c w')) \<and>
    (\<forall>a. as_opt showOptions = Some a \<longrightarrow> a \<noteq> [] \<longrightarrow> singularize model showOptions = a) \<and>
    (as_opt showOptions = None \<or> as_opt showOptions = Some [] \<longrightarrow>
       singularize model showOptions = butlast model)"
  by (auto simp: show_def destroy_def singularize_def)

theorem C5_cached_record_witness:
  "show exampleAdapter ''users'' (noLoadOptions :: (ctx, unit) LoadOptions)
       (request [(''user'', JObj [(''user_id'', JStr ''u1'')])] [(''user_id'', JStr ''u1'')]
          JUndefined)
       (exampleWorld emptyTables)
     = Inr (JObj [(''user_id'', JStr ''u1'')], exampleWorld emptyTables)
   \<and> show exampleAdapter ''users''
       (noLoadOptions\<lparr>as_opt := Some ''member''\<rparr> :: (ctx, unit) LoadOptions)
       (request [(''member'', JObj [(''user_id'', JStr ''u2'')])] [(''user_id'', JStr ''u2'')]
          JUndefined)
       (exampleWorld emptyTables)
     = Inr (JObj [(''user_id'', JStr ''u2'')], exampleWorld emptyTables)"
proof -
  let ?o1 = "noLoadOptions :: (ctx, unit) LoadOptions"
  let ?o2 = "noLoadOptions\<lparr>as_opt := Some ''member''\<rparr> :: (ctx, unit) LoadOptions"
  let ?c1 = "request [(''user'', JObj [(''user_id'', JStr ''u1'')])]
               [(''user_id'', JStr ''u1'')] JUndefined"
  let ?c2 = "request [(''member'', JObj [(''user_id'', JStr ''u2'')])]
               [(''user_id'', JStr ''u2'')] JUndefined"
  have k1: "singularize ''users'' ?o1 = ''user''"
    by (simp add: noLoadOptions_def singularize_def)
  have k2: "singularize ''users'' ?o2 = ''member''"
    by (simp add: noLoadOptions_def singularize_def)
  have g1: "get_ctx exampleAdapter ?c1 (singularize ''users'' ?o1)
              = JObj [(''user_id'', JStr ''u1'')]"
    by (simp add: k1 example_defs)
  have g2: "get_ctx exampleAdapter ?c2 (singularize ''users'' ?o2)
              = JObj [(''user_id'', JStr ''u2'')]"
    by (simp add: k2 example_defs)
  from C5_cached_record [where adapter=exampleAdapter and c="?c1" and model="''users''"
      and showOptions="?o1" and w="exampleWorld emptyTables"] g1
  have "show exampleAdapter ''users'' ?o1 ?c1 (exampleWorld emptyTables)
          = Inr (JObj [(''user_id'', JStr ''u1'')], exampleWorld emptyTables)"
    by simp
  moreover
  from C5_cached_record [where adapter=exampleAdapter and c="?c2" and model="''users''"
      and showOptions="?o2" and w="exampleWorld emptyTables"] g2
  have "show exampleAdapter ''users'' ?o2 ?c2 (exampleWorld emptyTables)
          = Inr (JObj [(''user_id'', JStr ''u2'')], exampleWorld emptyTables)"
    by simp
  ultimately show ?thesis by simp
qed

text \<open>The claim as stated takes the \<^verbatim>\<open>as\<close> option whenever it is given; an empty
  \<^verbatim>\<open>as\<close> is given and is not the key.\<close>

theorem C5_empty_as_counterexample:
  "as_opt (noLoadOptions\<lparr>as_opt := Some ''''\<rparr> :: (ctx, unit) LoadOptions) = Some ''''
   \<and> singularize ''users'' (noLoadOptions\<lparr>as_opt := Some ''''\<rparr> :: (ctx, unit) LoadOptions)
       = ''user''"
  by (simp add: singularize_def noLoadOptions_def)

section \<open>Scopes and the order of filters\<close>









section \<open>Collection shaping\<close>

lemma delete_then_filter:
  "filter P (js_delete ob x) = filter (\<lambda>p. fst p \<noteq> x \<and> P p) ob"
  by (induction ob) (simp_all add: js_delete_def)

lemma omit_filter: "omit ob props = filter (\<lambda>p. fst p \<notin> set props) ob"
proof -
  have "foldl js_delete ob props = filter (\<lambda>p. fst p \<notin> set props) ob" for ob
  proof (induction props arbitrary: ob)
    case Nil
    then show ?case by simp
  next
    case (Cons x xs)
    have "foldl js_delete ob (x # xs) = foldl js_delete (js_delete ob x) xs"
      by simp
    also have "\<dots> = filter (\<lambda>p. fst p \<notin> set xs) (js_delete ob x)"
      by (rule Cons.IH)
    also have "\<dots> = filter (\<lambda>p. fst p \<noteq> x \<and> fst p \<notin> set xs) ob"
      by (rule delete_then_filter)
    also have "\<dots> = filter (\<lambda>p. fst p \<notin> set (x # xs)) ob"
      by (rule filter_cong) auto
    finally show ?case .
  qed
  then show ?thesis by (simp add: omit_def)
qed

lemma pick_fold:
  "map_of (foldl (\<lambda>result prop. js_set result prop (js_get ob prop)) acc props) k =
     (if k \<in> set props then Some (js_get ob k) else map_of acc k)"
  by (induction props arbitrary: acc) (simp_all add: map_of_js_set)

lemma map_of_pick:
  "map_of (pick ob props) k = (if k \<in> set props then Some (js_get ob k) else None)"
  by (simp add: pick_def pick_fold)

lemma shapeRows_Cons_Inr:
  "shapeRows options (row # rows) = Inr ys \<longleftrightarrow>
   (\<exists>r rs. ys = r # rs \<and> shapeRow options row = Inr r \<and> shapeRows options rows = Inr rs)"
  by (cases "shapeRow options row"; cases "shapeRows options rows") auto

lemma shapeRows_list_all2:
  "shapeRows options rows = Inr shaped \<longleftrightarrow>
   list_all2 (\<lambda>row r. shapeRow options row = Inr r) rows shaped"
proof (induction rows arbitrary: shaped)
  case Nil
  then show ?case by auto
next
  case (Cons row rows)
  show ?case
    unfolding shapeRows_Cons_Inr list_all2_Cons1 Cons.IH by blast
qed

text \<open>
  Claim C9. Collection shaping succeeds exactly when every row shapes, and then gives as
  many rows as it got, the \<open>i\<close>-th being the \<open>i\<close>-th input row shaped on its own;
  a row is shaped by omit (which drops the named fields and keeps the others in place),
  then pick (which keeps the named fields only), then render, the same steps that the
  single-record response runs; the response carries the shaped rows in that order.
  Shaping \<^verbatim>\<open>[{id:1,name:"a"},{id:2,name:"b"}]\<close> with
  \<^verbatim>\<open>omit: ["name"]\<close> gives \<^verbatim>\<open>[{id:1},{id:2}]\<close>.
\<close>

theorem C9_collection_shaping:
  fixes options :: "'e ResponseOptions"
  shows
   "(shapeRows options rows = Inr shaped \<longleftrightarrow>
       length shaped = length rows \<and>
       (\<forall>i < length rows. shapeRow options (rows ! i) = Inr (shaped ! i))) \<and>
    (\<forall>os ps f. omit_opt options = Some os \<longrightarrow> pick_opt options = Some ps \<longrightarrow>
       render options = Some f \<longrightarrow>
       shapeRow options row =
         (case f (pick (omit row os) ps) of Inl e \<Rightarrow> Inl (Thrown e) | Inr r \<Rightarrow> Inr r)) \<and>
    (\<forall>result w'. dataFn c w = Inr (result, w') \<longrightarrow>
       shapeRows options (data result) = Inr shaped \<longrightarrow>
       collectionResponse adapter dataFn options c w =
         Inr (respond adapter c
                (JObj [(''data'', JArr (map JObj shaped)), (''metadata'', metadata result)])
                (case statusCode_opt options of None \<Rightarrow> 200 | Some code \<Rightarrow> code), w')) \<and>
    (\<forall>d w' r. recordFn c w = Inr (d, w') \<longrightarrow> shapeRow options d = Inr r \<longrightarrow>
       response adapter recordFn options c w =
         Inr (respond adapter c (JObj [(''data'', JObj r)])
                (case statusCode_opt options of None \<Rightarrow> 200 | Some code \<Rightarrow> code), w')) \<and>
    omit ob props = filter (\<lambda>p. fst p \<notin> set props) ob \<and>
    (\<forall>k. map_of (pick ob props) k = (if k \<in> set props then Some (js_get ob k) else None)) \<and>
    shapeRows \<lparr>omit_opt = Some [''name''], pick_opt = None, render = None,
               statusCode_opt = None\<rparr>
       [[(''id'', JNum 1), (''name'', JStr ''a'')], [(''id'', JNum 2), (''name'', JStr ''b'')]]
      = (Inr [[(''id'', JNum 1)], [(''id'', JNum 2)]] :: 'e error + obj list)"
proof (intro conjI allI impI)
  show "shapeRows options rows = Inr shaped \<longleftrightarrow>
       length shaped = length rows \<and>
       (\<forall>i < length rows. shapeRow options (rows ! i) = Inr (shaped ! i))"
    unfolding shapeRows_list_all2 list_all2_conv_all_nth by (rule iffI) simp_all
  show "shapeRows \<lparr>omit_opt = Some [''name''], pick_opt = None, render = None,
               statusCode_opt = None\<rparr>
       [[(''id'', JNum 1), (''name'', JStr ''a'')], [(''id'', JNum 2), (''name'', JStr ''b'')]]
      = (Inr [[(''id'', JNum 1)], [(''id'', JNum 2)]] :: 'e error + obj list)"
    by (simp add: shapeRow_def omit_def js_delete_def)
next
  fix os ps f
  assume "omit_opt options = Some os" "pick_opt options = Some ps" "render options = Some f"
  then show "shapeRow options row =
         (case f (pick (omit row os) ps) of Inl e \<Rightarrow> Inl (Thrown e) | Inr r \<Rightarrow> Inr r)"
    by (simp add: shapeRow_def)
next
  show "omit ob props = filter (\<lambda>p. fst p \<notin> set props) ob"
    by (rule omit_filter)
next
  fix k
  show "map_of (pick ob props) k = (if k \<in> set props then Some (js_get ob k) else None)"
    by (rule map_of_pick)
next
  fix d w' r
  assume "recordFn c w = Inr (d, w')" "shapeRow options d = Inr r"
  then show "response adapter recordFn options c w =
         Inr (respond adapter c (JObj [(''data'', JObj r)])
                (case statusCode_opt options of None \<Rightarrow> 200 | Some code \<Rightarrow> code), w')"
    by (simp add: response_def shapeRow_def Let_def split: option.splits sum.splits)
next
  fix result w'
  assume "dataFn c w = Inr (result, w')" "shapeRows options (data result) = Inr shaped"
  then show "collectionResponse adapter dataFn options c w =
         Inr (respond adapter c
                (JObj [(''data'', JArr (map JObj shaped)), (''metadata'', metadata result)])
                (case statusCode_opt options of None \<Rightarrow> 200 | Some code \<Rightarrow> code), w')"
    by (simp add: collectionResponse_def)
qed

theorem C9_collection_shaping_witness:
  "collectionResponse exampleAdapter (index exampleAdapter ''things'' noLoadOptions)
       (\<lparr>omit_opt = Some [''name'', ''active''], pick_opt = Some [''thing_id''],
         render = Some (\<lambda>r. Inr (js_set r ''kind'' (JStr ''thing''))),
         statusCode_opt = None\<rparr> :: unit ResponseOptions)
       (request [] [(''user_id'', JStr ''u1'')] JUndefined) (exampleWorld thingsTables)
     = Inr ((200,
             JObj [(''data'', JArr [JObj [(''thing_id'', JStr ''t1''), (''kind'', JStr ''thing'')]]),
                   (''metadata'', JObj [(''total_count'', JNum 0)])]),
            exampleWorld thingsTables)"
proof -
  let ?o = "\<lparr>omit_opt = Some [''name'', ''active''], pick_opt = Some [''thing_id''],
         render = Some (\<lambda>r. Inr (js_set r ''kind'' (JStr ''thing''))),
         statusCode_opt = None\<rparr> :: unit ResponseOptions"
  let ?c = "request [] [(''user_id'', JStr ''u1'')] JUndefined"
  let ?row = "[(''thing_id'', JStr ''t1''), (''user_id'', JStr ''u1''), (''name'', JStr ''a''),
       (''active'', JBool False)]"
  let ?res = "\<lparr>data = [?row], metadata = JObj [(''total_count'', JNum 0)]\<rparr>"
  have d: "index exampleAdapter ''things'' (noLoadOptions :: (ctx, unit) LoadOptions) ?c
             (exampleWorld thingsTables) = Inr (?res, exampleWorld thingsTables)"
    by (simp add: index_def indexQuery_def action_defs more_defs example_defs)
  have s: "shapeRows ?o (data ?res)
             = Inr [[(''thing_id'', JStr ''t1''), (''kind'', JStr ''thing'')]]"
    by (simp add: shapeRow_def omit_def pick_def js_delete_def js_get_def)
  from C9_collection_shaping [where options="?o" and adapter=exampleAdapter and c="?c"
      and dataFn="index exampleAdapter ''things'' noLoadOptions"
      and w="exampleWorld thingsTables"
      and shaped="[[(''thing_id'', JStr ''t1''), (''kind'', JStr ''thing'')]]"] d s
  have "collectionResponse exampleAdapter (index exampleAdapter ''things'' noLoadOptions) ?o ?c
          (exampleWorld thingsTables)
        = Inr (respond exampleAdapter ?c
                (JObj [(''data'', JArr (map JObj [[(''thing_id'', JStr ''t1''),
                                                   (''kind'', JStr ''thing'')]])),
                       (''metadata'', metadata ?res)])
                (case statusCode_opt ?o of None \<Rightarrow> 200 | Some code \<Rightarrow> code),
               exampleWorld thingsTables)"
    by blast
  then show ?thesis by (simp add: exampleAdapter_def)
qed

end
